theory Spec2Isabelle
  imports Complex_Main "HOL-Library.Product_Lexorder"
begin

section \<open>Strings\<close>

text \<open>
  The Python string methods used by \<open>main.py\<close>. A header value reaches the handler decoded
  as Latin-1, so one HOL \<open>char\<close> is one character of the API key.
\<close>

definition endswith :: "string \<Rightarrow> string \<Rightarrow> bool" where
  "endswith s suf = (length suf \<le> length s \<and> drop (length s - length suf) s = suf)"

definition startswith :: "string \<Rightarrow> string \<Rightarrow> bool" where
  "startswith s pre = (take (length pre) s = pre)"

text \<open>
  \<open>s.replace(old, '')\<close>: every non-overlapping occurrence of \<open>old\<close>, found from the left, is
  removed. Both call sites pass a non-empty \<open>old\<close>; for an empty one the string is unchanged.
\<close>

fun remove_all :: "string \<Rightarrow> string \<Rightarrow> string" where
  "remove_all old [] = []"
| "remove_all old (c # cs) =
     (if old \<noteq> [] \<and> startswith (c # cs) old
      then remove_all old (drop (length old) (c # cs))
      else c # remove_all old cs)"

text \<open>\<open>str.isspace\<close> on the characters below U+0100.\<close>

definition isspace :: "char \<Rightarrow> bool" where
  "isspace c = (of_char c \<in> {9, 10, 11, 12, 13, 28, 29, 30, 31, 32, 133, 160 :: nat})"

definition strip :: "string \<Rightarrow> string" where
  "strip s = rev (dropWhile isspace (rev (dropWhile isspace s)))"

text \<open>\<open>str(n)\<close> for an integer that is not negative, as every number printed here is.\<close>

function str_int :: "int \<Rightarrow> string" where
  "str_int n =
     (if n < 10 then [char_of (48 + n)]
      else str_int (n div 10) @ [char_of (48 + n mod 10)])"
  by pat_completeness auto
termination
  by (relation "measure nat") auto

declare str_int.simps [simp del]

section \<open>Instants\<close>

text \<open>
  A \<open>datetime\<close> object. Every instant of the program is taken or parsed as UTC, so the
  \<open>tzinfo\<close> field is left out.
\<close>

record datetime =
  year :: int
  month :: int
  day :: int
  hour :: int
  minute :: int
  second :: int
  microsecond :: int

text \<open>Comparison of two datetimes of one time zone is the comparison of their field tuples.\<close>

definition dt_tuple :: "datetime \<Rightarrow> int \<times> int \<times> int \<times> int \<times> int \<times> int \<times> int" where
  "dt_tuple d = (year d, month d, day d, hour d, minute d, second d, microsecond d)"

definition dt_gt :: "datetime \<Rightarrow> datetime \<Rightarrow> bool" where
  "dt_gt a b = (dt_tuple b < dt_tuple a)"

text \<open>
  Subtraction of datetimes, as the \<open>datetime\<close> module computes it: the difference of the
  proleptic Gregorian ordinals in days, of the seconds within the day and of the microseconds.
  A \<open>timedelta\<close> is kept as its total number of microseconds, which is what its comparison
  compares.
\<close>

definition is_leap :: "int \<Rightarrow> bool" where
  "is_leap y = (y mod 4 = 0 \<and> (y mod 100 \<noteq> 0 \<or> y mod 400 = 0))"

definition days_before_year :: "int \<Rightarrow> int" where
  "days_before_year y = (let p = y - 1 in p * 365 + p div 4 - p div 100 + p div 400)"

text \<open>The table \<open>_DAYS_BEFORE_MONTH\<close>, for the months 1 to 12.\<close>

definition DAYS_BEFORE_MONTH :: "int list" where
  "DAYS_BEFORE_MONTH = [0, 31, 59, 90, 120, 151, 181, 212, 243, 273, 304, 334]"

definition days_before_month :: "int \<Rightarrow> int \<Rightarrow> int" where
  "days_before_month y m =
     DAYS_BEFORE_MONTH ! nat (m - 1) + (if m > 2 \<and> is_leap y then 1 else 0)"

definition toordinal :: "datetime \<Rightarrow> int" where
  "toordinal d = days_before_year (year d) + days_before_month (year d) (month d) + day d"

type_synonym timedelta = int

definition timedelta :: "int \<Rightarrow> int \<Rightarrow> int \<Rightarrow> timedelta" where
  "timedelta days secs us = (days * 86400 + secs) * 1000000 + us"

definition dt_sub :: "datetime \<Rightarrow> datetime \<Rightarrow> timedelta" where
  "dt_sub a b =
     timedelta (toordinal a - toordinal b)
       ((second a + minute a * 60 + hour a * 3600) - (second b + minute b * 60 + hour b * 3600))
       (microsecond a - microsecond b)"

text \<open>
  \<open>strftime('%Y-%m-%d_%H-%M-%S')\<close>: the year in decimal as it is, the other fields padded
  with zeros to two digits.
\<close>

definition zfill :: "nat \<Rightarrow> string \<Rightarrow> string" where
  "zfill w s = replicate (w - length s) CHR ''0'' @ s"

definition strftime :: "datetime \<Rightarrow> string" where
  "strftime d =
     str_int (year d) @ ''-'' @ zfill 2 (str_int (month d)) @ ''-''
     @ zfill 2 (str_int (day d)) @ ''_'' @ zfill 2 (str_int (hour d)) @ ''-''
     @ zfill 2 (str_int (minute d)) @ ''-'' @ zfill 2 (str_int (second d))"

section \<open>Exceptions, JSON values and the environment of one request\<close>

text \<open>
  The exceptions the handler tells apart. \<open>HTTPException\<close> is FastAPI's (a subclass of
  \<open>Exception\<close>, not of the two \<open>httpx\<close> classes); \<open>ValueError\<close> includes its subclass
  \<open>JSONDecodeError\<close>; \<open>OtherError\<close> is any other subclass of \<open>Exception\<close>
  (\<open>TypeError\<close>, \<open>AttributeError\<close>, the store's errors).
\<close>

datatype exn =
    HTTPException int string
  | RequestError string
  | HTTPStatusError int
  | ValueError string
  | OtherError string

text \<open>A JSON value as \<open>json.loads\<close> builds it; \<open>'f\<close> is the type of Python floats.\<close>

datatype 'f json =
    JNull
  | JBool bool
  | JInt int
  | JFloat 'f
  | JStr string
  | JArr "'f json list"
  | JObj "(string \<times> 'f json) list"

record 'f response =
  status_code :: int
  resp_text :: string
  json_body :: "exn + 'f json"

definition is_success :: "'f response \<Rightarrow> bool" where
  "is_success r = (200 \<le> status_code r \<and> status_code r \<le> 299)"

text \<open>
  What the outside answers during one request: the library functions whose results the
  handler only passes on, the object store, the clock and the upstream API.
  \<open>strptime\<close> is \<open>datetime.strptime(\<cdot>, '%Y-%m-%d_%H-%M-%S')\<close>, \<open>None\<close> when it raises
  \<open>ValueError\<close>. The listing is lazy: it yields \<open>listed\<close> and then either ends or raises
  \<open>list_error\<close>.
\<close>

record 'f env =
  strptime :: "string \<Rightarrow> datetime option"
  float_of_int :: "int \<Rightarrow> exn + 'f"
  float_of_str :: "string \<Rightarrow> exn + 'f"
  json_loads :: "string \<Rightarrow> exn + 'f json"
  json_dumps :: "'f json \<Rightarrow> string"
  str_exn :: "exn \<Rightarrow> string"
  client_scan :: "exn option"
  listed :: "string list"
  list_error :: "exn option"
  now_scan :: datetime
  download_as_text :: "string \<Rightarrow> exn + string"
  http_get :: "string \<Rightarrow> exn + 'f response"
  client_save :: "exn option"
  now_save :: datetime
  upload_from_string :: "string \<Rightarrow> string \<Rightarrow> exn option"

datatype level = INFO | WARNING | ERROR | EXCEPTION

datatype event =
    GetClient
  | ListBlobs string
  | Download string
  | HttpGet string
  | Upload string string
  | Logged level

section \<open>The cache index\<close>

definition SINGAPORE_CACHE_FOLDER :: string where
  "SINGAPORE_CACHE_FOLDER = ''singapore-cache/''"

definition CACHE_EXPIRY_MINUTES :: int where
  "CACHE_EXPIRY_MINUTES = 10"

text \<open>The part of a blob name that is parsed as a timestamp.\<close>

definition filename_of :: "string \<Rightarrow> string" where
  "filename_of name = remove_all ''.json'' (remove_all SINGAPORE_CACHE_FOLDER name)"

text \<open>
  The body of the loop over the listing for one blob: what is appended to \<open>valid_blobs\<close>.
\<close>

definition scan_blob ::
  "(string \<Rightarrow> datetime option) \<Rightarrow> datetime \<Rightarrow> string \<Rightarrow> (string \<times> datetime) list" where
  "scan_blob parse current_time name =
     (if endswith name ''.json'' then
        (case parse (filename_of name) of
           None \<Rightarrow> []
         | Some file_timestamp \<Rightarrow>
             if dt_sub current_time file_timestamp \<le> timedelta 0 (CACHE_EXPIRY_MINUTES * 60) 0
             then [(name, file_timestamp)] else [])
      else [])"

fun scan :: "(string \<Rightarrow> datetime option) \<Rightarrow> datetime \<Rightarrow> string list
    \<Rightarrow> (string \<times> datetime) list \<Rightarrow> (string \<times> datetime) list" where
  "scan parse current_time [] valid_blobs = valid_blobs"
| "scan parse current_time (name # rest) valid_blobs =
     scan parse current_time rest (valid_blobs @ scan_blob parse current_time name)"

text \<open>
  \<open>max(valid_blobs, key=lambda x: x[1])\<close>: the first element whose key no later element
  exceeds.
\<close>

fun max_by_key :: "(string \<times> datetime) \<Rightarrow> (string \<times> datetime) list \<Rightarrow> (string \<times> datetime)" where
  "max_by_key best [] = best"
| "max_by_key best (x # xs) = max_by_key (if dt_gt (snd x) (snd best) then x else best) xs"

definition get_latest_cache_file :: "'f env \<Rightarrow> event list \<times> (string \<times> datetime) option" where
  "get_latest_cache_file env =
     (case client_scan env of
        Some e \<Rightarrow> ([GetClient, Logged WARNING], None)
      | None \<Rightarrow>
          (let valid_blobs = scan (strptime env) (now_scan env) (listed env) [] in
           case list_error env of
             Some e \<Rightarrow> ([GetClient, ListBlobs SINGAPORE_CACHE_FOLDER, Logged WARNING], None)
           | None \<Rightarrow>
               (case valid_blobs of
                  [] \<Rightarrow> ([GetClient, ListBlobs SINGAPORE_CACHE_FOLDER], None)
                | b # bs \<Rightarrow> ([GetClient, ListBlobs SINGAPORE_CACHE_FOLDER], Some (max_by_key b bs)))))"

section \<open>Normalization of the upstream vessels\<close>

definition and_then :: "exn + 'a \<Rightarrow> ('a \<Rightarrow> exn + 'b) \<Rightarrow> exn + 'b" where
  "and_then m f = (case m of Inl e \<Rightarrow> Inl e | Inr x \<Rightarrow> f x)"

text \<open>\<open>float(v)\<close> on a JSON value.\<close>

fun py_float :: "'f env \<Rightarrow> 'f json \<Rightarrow> exn + 'f" where
  "py_float env (JFloat x) = Inr x"
| "py_float env (JInt n) = float_of_int env n"
| "py_float env (JBool b) = float_of_int env (if b then 1 else 0)"
| "py_float env (JStr s) = float_of_str env s"
| "py_float env JNull = Inl (OtherError ''TypeError'')"
| "py_float env (JArr xs) = Inl (OtherError ''TypeError'')"
| "py_float env (JObj kvs) = Inl (OtherError ''TypeError'')"

text \<open>\<open>d.get(k, default)\<close> on a dictionary kept as its list of items.\<close>

definition py_get :: "(string \<times> 'f json) list \<Rightarrow> string \<Rightarrow> 'f json \<Rightarrow> 'f json" where
  "py_get d k dflt = (case map_of d k of None \<Rightarrow> dflt | Some v \<Rightarrow> v)"

text \<open>
  One pass of the loop body: the dictionary literal, its values evaluated in the order they
  are written. \<open>ship.get\<close> exists on a dictionary only.
\<close>

fun transform_ship :: "'f env \<Rightarrow> 'f json \<Rightarrow> exn + 'f json" where
  "transform_ship env (JObj ship) =
     and_then (py_float env (py_get ship ''vesselLength'' (JInt 0))) (\<lambda>vesselLength.
     and_then (py_float env (py_get ship ''vesselBreadth'' (JInt 0))) (\<lambda>vesselBreadth.
     and_then (py_float env (py_get ship ''vesselDepth'' (JInt 0))) (\<lambda>vesselDepth.
     and_then (py_float env (py_get ship ''grossTonnage'' (JInt 0))) (\<lambda>grossTonnage.
     and_then (py_float env (py_get ship ''netTonnage'' (JInt 0))) (\<lambda>netTonnage.
     and_then (py_float env (py_get ship ''deadweight'' (JInt 0))) (\<lambda>deadweight.
     and_then (py_float env (py_get ship ''latitude'' (JInt 0))) (\<lambda>latitude.
     and_then (py_float env (py_get ship ''longitude'' (JInt 0))) (\<lambda>longitude.
     and_then (py_float env (py_get ship ''latitudeDegrees'' (py_get ship ''latitude'' (JInt 0))))
       (\<lambda>latitudeDegrees.
     and_then (py_float env (py_get ship ''longitudeDegrees'' (py_get ship ''longitude'' (JInt 0))))
       (\<lambda>longitudeDegrees.
     and_then (py_float env (py_get ship ''speed'' (JInt 0))) (\<lambda>speed.
     and_then (py_float env (py_get ship ''course'' (JInt 0))) (\<lambda>course.
     and_then (py_float env (py_get ship ''heading'' (JInt 0))) (\<lambda>heading.
     Inr (JObj
       [(''vesselParticulars'', JObj
          [(''vesselName'', py_get ship ''vesselName'' (JStr [])),
           (''callSign'', py_get ship ''callSign'' (JStr [])),
           (''imoNumber'', py_get ship ''imoNumber'' (JStr [])),
           (''flag'', py_get ship ''flag'' (JStr [])),
           (''vesselLength'', JFloat vesselLength),
           (''vesselBreadth'', JFloat vesselBreadth),
           (''vesselDepth'', JFloat vesselDepth),
           (''vesselType'', py_get ship ''vesselType'' (JStr [])),
           (''grossTonnage'', JFloat grossTonnage),
           (''netTonnage'', JFloat netTonnage),
           (''deadweight'', JFloat deadweight),
           (''mmsiNumber'', py_get ship ''mmsiNumber'' (JStr [])),
           (''yearBuilt'', py_get ship ''yearBuilt'' (JStr []))]),
        (''latitude'', JFloat latitude),
        (''longitude'', JFloat longitude),
        (''latitudeDegrees'', JFloat latitudeDegrees),
        (''longitudeDegrees'', JFloat longitudeDegrees),
        (''speed'', JFloat speed),
        (''course'', JFloat course),
        (''heading'', JFloat heading),
        (''timeStamp'', py_get ship ''timeStamp'' (JStr []))]))))))))))))))"
| "transform_ship env other = Inl (OtherError ''AttributeError'')"

text \<open>\<open>for ship in api_data\<close>: what iterating the decoded body yields.\<close>

fun py_iter :: "'f json \<Rightarrow> exn + 'f json list" where
  "py_iter (JArr xs) = Inr xs"
| "py_iter (JObj kvs) = Inr (map (\<lambda>kv. JStr (fst kv)) kvs)"
| "py_iter (JStr s) = Inr (map (\<lambda>c. JStr [c]) s)"
| "py_iter other = Inl (OtherError ''TypeError'')"

fun transform_all :: "'f env \<Rightarrow> 'f json list \<Rightarrow> exn + 'f json list" where
  "transform_all env [] = Inr []"
| "transform_all env (ship # rest) =
     and_then (transform_ship env ship) (\<lambda>transformed_ship.
     and_then (transform_all env rest) (\<lambda>transformed_rest.
     Inr (transformed_ship # transformed_rest)))"

section \<open>The lookup\<close>

definition save_to_cache :: "'f env \<Rightarrow> 'f json \<Rightarrow> event list \<times> string option" where
  "save_to_cache env data =
     (case client_save env of
        Some e \<Rightarrow> ([GetClient, Logged ERROR], None)
      | None \<Rightarrow>
          (let cache_filename = SINGAPORE_CACHE_FOLDER @ strftime (now_save env) @ ''.json'';
               body = json_dumps env data
           in case upload_from_string env cache_filename body of
                Some e \<Rightarrow> ([GetClient, Upload cache_filename body, Logged ERROR], None)
              | None \<Rightarrow>
                  ([GetClient, Upload cache_filename body, Logged INFO], Some cache_filename)))"

text \<open>
  The body of the \<open>try\<close> statement of \<open>get_singapore_ship_data\<close>, in two parts: the events in
  the order they happen, and what the body returns or raises. \<open>fetch_fresh\<close> is the part after
  the cache check (from "No valid cache found" on).
\<close>

definition fetch_fresh :: "'f env \<Rightarrow> string \<Rightarrow> event list \<times> (exn + 'f json)" where
  "fetch_fresh env x_api_key =
     (case http_get env x_api_key of
        Inl e \<Rightarrow> ([Logged INFO, HttpGet x_api_key], Inl e)
      | Inr response \<Rightarrow>
          if \<not> is_success response
          then ([Logged INFO, HttpGet x_api_key, Logged ERROR],
                Inl (HTTPException 502
                  (''Failed to fetch data from Singapore API: ''
                   @ str_int (status_code response))))
          else
            (case and_then (json_body response) (\<lambda>api_data.
                  and_then (py_iter api_data) (transform_all env)) of
               Inl e \<Rightarrow> ([Logged INFO, HttpGet x_api_key], Inl e)
             | Inr transformed_data \<Rightarrow>
                 ([Logged INFO, HttpGet x_api_key]
                    @ fst (save_to_cache env (JArr transformed_data)) @ [Logged INFO],
                  Inr (JArr transformed_data))))"

definition try_body :: "'f env \<Rightarrow> string \<Rightarrow> event list \<times> (exn + 'f json)" where
  "try_body env x_api_key =
     (if x_api_key = [] \<or> strip x_api_key = []
      then ([], Inl (HTTPException 400 ''API key is required''))
      else
        (case get_latest_cache_file env of
           (ev, Some (cached_blob, cache_timestamp)) \<Rightarrow>
             (ev @ [Logged INFO, Download cached_blob],
              and_then (download_as_text env cached_blob) (json_loads env))
         | (ev, None) \<Rightarrow>
             (ev @ fst (fetch_fresh env x_api_key), snd (fetch_fresh env x_api_key))))"

text \<open>The \<open>except\<close> clauses, tried in the order they are written.\<close>

fun reraise :: "'f env \<Rightarrow> exn \<Rightarrow> exn" where
  "reraise env (RequestError m) =
     HTTPException 502 (''Network error: '' @ str_exn env (RequestError m))"
| "reraise env (HTTPStatusError c) = HTTPException 502 (''API error: '' @ str_int c)"
| "reraise env e = HTTPException 500 (str_exn env e)"

definition get_singapore_ship_data :: "'f env \<Rightarrow> string \<Rightarrow> event list \<times> (exn + 'f json)" where
  "get_singapore_ship_data env x_api_key =
     (case try_body env x_api_key of
        (ev, Inr data) \<Rightarrow> (ev, Inr data)
      | (ev, Inl e) \<Rightarrow> (ev @ [Logged EXCEPTION], Inl (reraise env e)))"

section \<open>Reading events and normalized records\<close>

fun is_upload :: "event \<Rightarrow> bool" where
  "is_upload (Upload name body) = True"
| "is_upload e = False"

text \<open>\<open>obj[k]\<close> on a normalized record.\<close>

fun member_of :: "'f json \<Rightarrow> string \<Rightarrow> 'f json option" where
  "member_of (JObj kvs) k = map_of kvs k"
| "member_of other k = None"

text \<open>The keys of an upstream vessel that \<open>float\<close> is applied to.\<close>

definition numeric_fields :: "string list" where
  "numeric_fields = [''vesselLength'', ''vesselBreadth'', ''vesselDepth'', ''grossTonnage'',
     ''netTonnage'', ''deadweight'', ''latitude'', ''longitude'', ''latitudeDegrees'',
     ''longitudeDegrees'', ''speed'', ''course'', ''heading'']"

section \<open>An example environment\<close>

text \<open>
  The store of the specification's example: two well-formed keys and a malformed one, read at
  10:06:00 on the same day. The table of \<open>strptime\<close> holds the names that occur in the examples.
  Variants of this environment are the concrete inputs of the examples below.
\<close>

definition example_env :: "real env" where
  "example_env =
     \<lparr> strptime = map_of
         [(''2024-01-01_10-00-00'',
             \<lparr>year = 2024, month = 1, day = 1, hour = 10, minute = 0, second = 0, microsecond = 0\<rparr>),
          (''2024-01-01_10-05-00'',
             \<lparr>year = 2024, month = 1, day = 1, hour = 10, minute = 5, second = 0, microsecond = 0\<rparr>),
          (''2024-01-01_10-06-00'',
             \<lparr>year = 2024, month = 1, day = 1, hour = 10, minute = 6, second = 0, microsecond = 0\<rparr>),
          (''9999-12-31_23-59-59'',
             \<lparr>year = 9999, month = 12, day = 31, hour = 23, minute = 59, second = 59, microsecond = 0\<rparr>)],
       float_of_int = (\<lambda>n. Inr (of_int n)),
       float_of_str = (\<lambda>s. Inl (ValueError s)),
       json_loads = (\<lambda>s. if s = ''[]'' then Inr (JArr []) else Inl (ValueError s)),
       json_dumps = (\<lambda>j. if j = JArr [] then ''[]'' else ''[...]''),
       str_exn = (\<lambda>e. case e of
           HTTPException c d \<Rightarrow> str_int c @ '': '' @ d
         | RequestError m \<Rightarrow> m
         | HTTPStatusError c \<Rightarrow> str_int c
         | ValueError m \<Rightarrow> m
         | OtherError m \<Rightarrow> m),
       client_scan = None,
       listed = [''singapore-cache/2024-01-01_10-00-00.json'',
                 ''singapore-cache/2024-01-01_10-05-00.json'',
                 ''singapore-cache/bad-key.json''],
       list_error = None,
       now_scan =
         \<lparr>year = 2024, month = 1, day = 1, hour = 10, minute = 6, second = 0, microsecond = 0\<rparr>,
       download_as_text = (\<lambda>blob. Inr ''[]''),
       http_get = (\<lambda>key. Inr \<lparr>status_code = 200, resp_text = ''[]'', json_body = Inr (JArr [])\<rparr>),
       client_save = None,
       now_save =
         \<lparr>year = 2024, month = 1, day = 1, hour = 10, minute = 6, second = 1, microsecond = 0\<rparr>,
       upload_from_string = (\<lambda>name body. None) \<rparr>"

section \<open>The scan and the choice of the freshest entry\<close>

lemma scan_append: "scan parse now xs acc = acc @ concat (map (scan_blob parse now) xs)"
  by (induction xs arbitrary: acc) simp_all

lemma expiry_window: "timedelta 0 (CACHE_EXPIRY_MINUTES * 60) 0 = 600000000"
  unfolding timedelta_def CACHE_EXPIRY_MINUTES_def by simp

lemma scan_blob_unparsed: "parse (filename_of name) = None \<Longrightarrow> scan_blob parse now name = []"
  unfolding scan_blob_def by simp

lemma scan_blob_parsed:
  "parse (filename_of name) = Some t \<Longrightarrow>
   scan_blob parse now name =
     (if endswith name ''.json'' \<and> dt_sub now t \<le> 600000000 then [(name, t)] else [])"
  unfolding scan_blob_def expiry_window by simp

lemma scan_blob_iff:
  "(n, ts) \<in> set (scan_blob parse now name) \<longleftrightarrow>
     n = name \<and> endswith name ''.json'' \<and> parse (filename_of name) = Some ts
     \<and> dt_sub now ts \<le> 600000000"
  by (cases "parse (filename_of name)") (auto simp: scan_blob_unparsed scan_blob_parsed)

lemma set_scan:
  "(n, ts) \<in> set (scan parse now xs []) \<longleftrightarrow>
     n \<in> set xs \<and> endswith n ''.json'' \<and> parse (filename_of n) = Some ts
     \<and> dt_sub now ts \<le> 600000000"
  by (auto simp: scan_append scan_blob_iff)

lemma max_by_key_mem: "max_by_key b bs \<in> set (b # bs)"
  by (induction bs arbitrary: b) auto

lemma max_by_key_ge:
  "x \<in> set (b # bs) \<Longrightarrow> dt_tuple (snd x) \<le> dt_tuple (snd (max_by_key b bs))"
proof (induction bs arbitrary: b x)
  case Nil
  then show ?case by simp
next
  case (Cons y ys)
  let ?b' = "if dt_gt (snd y) (snd b) then y else b"
  have keep: "dt_tuple (snd b) \<le> dt_tuple (snd ?b')" "dt_tuple (snd y) \<le> dt_tuple (snd ?b')"
    by (auto simp: dt_gt_def)
  have up: "dt_tuple (snd ?b') \<le> dt_tuple (snd (max_by_key ?b' ys))"
    using Cons.IH [of ?b' ?b'] by simp
  from Cons.prems consider "x = b" | "x = y" | "x \<in> set ys" by auto
  then show ?case
  proof cases
    case 1
    then show ?thesis using order_trans [OF keep(1) up] by simp
  next
    case 2
    then show ?thesis using order_trans [OF keep(2) up] by simp
  next
    case 3
    then show ?thesis using Cons.IH [of x ?b'] by simp
  qed
qed

lemma get_latest_cache_file_ok:
  assumes "client_scan env = None" and "list_error env = None"
  shows "snd (get_latest_cache_file env) =
     (case scan (strptime env) (now_scan env) (listed env) [] of
        [] \<Rightarrow> None | b # bs \<Rightarrow> Some (max_by_key b bs))"
  using assms by (simp add: get_latest_cache_file_def Let_def split: list.splits)

lemma get_latest_cache_file_failed:
  assumes "client_scan env \<noteq> None \<or> list_error env \<noteq> None"
  shows "snd (get_latest_cache_file env) = None"
  using assms by (auto simp: get_latest_cache_file_def Let_def split: option.splits list.splits)










section \<open>The lookup, path by path\<close>

lemma py_float_store:
  "py_float (env\<lparr>client_scan := c, list_error := l, listed := xs\<rparr>) j = py_float env j"
  by (cases j) simp_all

lemma transform_ship_store:
  "transform_ship (env\<lparr>client_scan := c, list_error := l, listed := xs\<rparr>) ship
     = transform_ship env ship"
  by (cases ship) (simp_all add: py_float_store)

lemma transform_all_store:
  "transform_all (env\<lparr>client_scan := c, list_error := l, listed := xs\<rparr>) ships
     = transform_all env ships"
  by (induction ships) (simp_all add: transform_ship_store)

lemma fetch_fresh_store:
  "fetch_fresh (env\<lparr>client_scan := c, list_error := l, listed := xs\<rparr>) key
     = fetch_fresh env key"
proof -
  have "transform_all (env\<lparr>client_scan := c, list_error := l, listed := xs\<rparr>)
          = transform_all env"
    by (rule ext) (rule transform_all_store)
  moreover have "save_to_cache (env\<lparr>client_scan := c, list_error := l, listed := xs\<rparr>)
          = save_to_cache env"
    by (rule ext) (simp add: save_to_cache_def Let_def cong: option.case_cong)
  ultimately show ?thesis by (simp add: fetch_fresh_def cong: sum.case_cong if_cong)
qed

lemma fetch_fresh_calls_upstream: "HttpGet key \<in> set (fst (fetch_fresh env key))"
  by (simp add: fetch_fresh_def split: sum.splits)

lemma try_body_miss:
  assumes "x_api_key \<noteq> []" "strip x_api_key \<noteq> []" "snd (get_latest_cache_file env) = None"
  shows "try_body env x_api_key =
           (fst (get_latest_cache_file env) @ fst (fetch_fresh env x_api_key),
            snd (fetch_fresh env x_api_key))"
  using assms by (cases "get_latest_cache_file env") (simp add: try_body_def)

lemma try_body_hit:
  assumes "x_api_key \<noteq> []" "strip x_api_key \<noteq> []"
    "snd (get_latest_cache_file env) = Some (blob, ts)"
  shows "try_body env x_api_key =
           (fst (get_latest_cache_file env) @ [Logged INFO, Download blob],
            and_then (download_as_text env blob) (json_loads env))"
  using assms by (cases "get_latest_cache_file env") (simp add: try_body_def)

lemma try_body_blank:
  assumes "x_api_key = [] \<or> strip x_api_key = []"
  shows "try_body env x_api_key = ([], Inl (HTTPException 400 ''API key is required''))"
  using assms by (auto simp: try_body_def)

lemma handler_events:
  "set (fst (try_body env key)) \<subseteq> set (fst (get_singapore_ship_data env key))"
  by (cases "try_body env key")
     (auto simp: get_singapore_ship_data_def split: sum.splits)
lemma get_latest_cache_file_events:
  "set (fst (get_latest_cache_file env))
     \<subseteq> {GetClient, ListBlobs SINGAPORE_CACHE_FOLDER, Logged WARNING}"
  by (auto simp: get_latest_cache_file_def Let_def split: option.splits list.splits)

lemma handler_events_eq:
  "set (fst (get_singapore_ship_data env key))
     \<subseteq> set (fst (try_body env key)) \<union> {Logged EXCEPTION}"
  by (cases "try_body env key")
     (auto simp: get_singapore_ship_data_def split: sum.splits)

lemma handler_success:
  "snd (try_body env key) = Inr data \<Longrightarrow> snd (get_singapore_ship_data env key) = Inr data"
  by (cases "try_body env key") (auto simp: get_singapore_ship_data_def)

lemma handler_failure:
  "snd (try_body env key) = Inl e \<Longrightarrow>
   get_singapore_ship_data env key
     = (fst (try_body env key) @ [Logged EXCEPTION], Inl (reraise env e))"
  by (cases "try_body env key") (auto simp: get_singapore_ship_data_def)
lemma strip_blank: "strip s = [] \<longleftrightarrow> (\<forall>c \<in> set s. isspace c)"
proof
  assume "strip s = []"
  then have all: "\<forall>c \<in> set (dropWhile isspace s). isspace c"
    by (simp add: strip_def dropWhile_eq_Nil_conv)
  have "dropWhile isspace s = []"
  proof (rule ccontr)
    assume ne: "dropWhile isspace s \<noteq> []"
    then have "\<not> isspace (hd (dropWhile isspace s))" by (rule hd_dropWhile)
    moreover have "hd (dropWhile isspace s) \<in> set (dropWhile isspace s)"
      using ne by (rule hd_in_set)
    ultimately show False using all by blast
  qed
  then show "\<forall>c \<in> set s. isspace c" by (simp add: dropWhile_eq_Nil_conv)
next
  assume "\<forall>c \<in> set s. isspace c"
  then have "dropWhile isspace s = []" by (simp add: dropWhile_eq_Nil_conv)
  then show "strip s = []" unfolding strip_def by (simp del: dropWhile_eq_Nil_conv)
qed
lemma no_upload_in_scan: "filter is_upload (fst (get_latest_cache_file env)) = []"
  by (auto simp: get_latest_cache_file_def Let_def split: option.splits list.splits)

text \<open>
  C9. When building the store client or listing the bucket raises, \<open>get_latest_cache_file\<close>
  returns no entry; the lookup then ends as it does on an empty, healthy store, and for a
  usable API key it goes on to call the upstream API.
\<close>

theorem store_failure_is_cache_miss:
  assumes "client_scan env = Some e \<or> list_error env = Some e"
  shows "snd (get_latest_cache_file env) = None
     \<and> snd (get_singapore_ship_data env x_api_key)
         = snd (get_singapore_ship_data
                  (env\<lparr>client_scan := None, list_error := None, listed := []\<rparr>) x_api_key)
     \<and> (x_api_key \<noteq> [] \<and> strip x_api_key \<noteq> []
          \<longrightarrow> HttpGet x_api_key \<in> set (fst (get_singapore_ship_data env x_api_key)))"
proof -
  let ?env' = "env\<lparr>client_scan := None, list_error := None, listed := []\<rparr>"
  have miss: "snd (get_latest_cache_file env) = None"
    using assms get_latest_cache_file_failed [of env] by auto
  have miss': "snd (get_latest_cache_file ?env') = None"
    by (simp add: get_latest_cache_file_def)
  have same: "snd (try_body env x_api_key) = snd (try_body ?env' x_api_key)"
  proof (cases "x_api_key = [] \<or> strip x_api_key = []")
    case True
    then show ?thesis by (simp add: try_body_blank)
  next
    case False
    then show ?thesis
      using try_body_miss [OF _ _ miss, of x_api_key] try_body_miss [OF _ _ miss', of x_api_key]
      by (simp add: fetch_fresh_store)
  qed
  have rr: "reraise ?env' x = reraise env x" for x
    by (cases x) simp_all
  have out: "snd (get_singapore_ship_data env x_api_key)
         = snd (get_singapore_ship_data ?env' x_api_key)"
    using same
    by (cases "try_body env x_api_key"; cases "try_body ?env' x_api_key")
       (auto simp: get_singapore_ship_data_def rr split: sum.splits)
  have call: "HttpGet x_api_key \<in> set (fst (get_singapore_ship_data env x_api_key))"
    if "x_api_key \<noteq> []" "strip x_api_key \<noteq> []"
  proof -
    have "HttpGet x_api_key \<in> set (fst (try_body env x_api_key))"
      using try_body_miss [OF that miss] fetch_fresh_calls_upstream [of x_api_key env] by simp
    then show ?thesis using handler_events by blast
  qed
  show ?thesis using miss out call by blast
qed

theorem store_failure_is_cache_miss_witness:
  "list_error (example_env\<lparr>list_error := Some (OtherError ''403 Forbidden'')\<rparr>)
     = Some (OtherError ''403 Forbidden'')
   \<and> snd (get_latest_cache_file
            (example_env\<lparr>list_error := Some (OtherError ''403 Forbidden'')\<rparr>)) = None
   \<and> ''k'' \<noteq> [] \<and> strip ''k'' \<noteq> []
   \<and> HttpGet ''k'' \<in> set (fst (get_singapore_ship_data
            (example_env\<lparr>list_error := Some (OtherError ''403 Forbidden'')\<rparr>) ''k''))
   \<and> snd (get_singapore_ship_data
            (example_env\<lparr>list_error := Some (OtherError ''403 Forbidden'')\<rparr>) ''k'')
       = Inr (JArr [])"
proof -
  let ?env = "example_env\<lparr>list_error := Some (OtherError ''403 Forbidden'')\<rparr>"
  have h: "client_scan ?env = Some (OtherError ''403 Forbidden'')
           \<or> list_error ?env = Some (OtherError ''403 Forbidden'')"
    by simp
  have k: "''k'' \<noteq> []" "strip ''k'' \<noteq> []" by code_simp+
  have r: "snd (get_singapore_ship_data ?env ''k'') = Inr (JArr [])" by code_simp
  show ?thesis
    using k r store_failure_is_cache_miss [OF h, of "''k''"] by simp
qed

text \<open>
  C10. An entry whose timestamp lies after the time of the scan (its age is negative) is kept
  as fresh however far ahead it lies: the scan returns an entry at least as late, and returns
  this very entry when every other parsed key is earlier.
\<close>

theorem future_entry_is_fresh:
  assumes "client_scan env = None" and "list_error env = None"
    and "name \<in> set (listed env)" and "endswith name ''.json''"
    and "strptime env (filename_of name) = Some ts"
    and "dt_sub (now_scan env) ts < 0"
  shows "(name, ts) \<in> set (scan (strptime env) (now_scan env) (listed env) [])
     \<and> (\<exists>blob t. snd (get_latest_cache_file env) = Some (blob, t) \<and> dt_tuple ts \<le> dt_tuple t)
     \<and> ((\<forall>other \<in> set (listed env). \<forall>ts'.
            other \<noteq> name \<and> strptime env (filename_of other) = Some ts'
            \<longrightarrow> dt_tuple ts' < dt_tuple ts)
          \<longrightarrow> snd (get_latest_cache_file env) = Some (name, ts))"
proof -
  let ?valid = "scan (strptime env) (now_scan env) (listed env) []"
  have kept: "(name, ts) \<in> set ?valid"
    using assms(3-6) by (simp add: set_scan)
  then obtain b bs where cons: "?valid = b # bs"
    by (cases ?valid) auto
  obtain blob t where m: "max_by_key b bs = (blob, t)" by (cases "max_by_key b bs")
  have sel: "snd (get_latest_cache_file env) = Some (blob, t)"
    using assms(1,2) cons m by (simp add: get_latest_cache_file_ok)
  have ge: "dt_tuple ts \<le> dt_tuple t"
    using max_by_key_ge [of "(name, ts)" b bs] kept cons m by simp
  have unique: "snd (get_latest_cache_file env) = Some (name, ts)"
    if later: "\<forall>other \<in> set (listed env). \<forall>ts'.
            other \<noteq> name \<and> strptime env (filename_of other) = Some ts'
            \<longrightarrow> dt_tuple ts' < dt_tuple ts"
  proof -
    have "(blob, t) \<in> set ?valid" using max_by_key_mem [of b bs] cons m by simp
    then have bt: "blob \<in> set (listed env)" "strptime env (filename_of blob) = Some t"
      by (simp_all add: set_scan)
    have "blob = name"
    proof (rule ccontr)
      assume "blob \<noteq> name"
      then have "dt_tuple t < dt_tuple ts" using later bt by blast
      then show False using ge by simp
    qed
    then show ?thesis using sel bt(2) assms(5) by simp
  qed
  show ?thesis using kept sel ge unique by blast
qed

theorem future_entry_is_fresh_witness:
  "client_scan (example_env\<lparr>listed := [''singapore-cache/2024-01-01_10-00-00.json'',
       ''singapore-cache/2024-01-01_10-05-00.json'', ''singapore-cache/9999-12-31_23-59-59.json'']\<rparr>) = None
   \<and> dt_sub (now_scan example_env)
         \<lparr>year = 9999, month = 12, day = 31, hour = 23, minute = 59, second = 59, microsecond = 0\<rparr> < 0
   \<and> snd (get_latest_cache_file (example_env\<lparr>listed := [''singapore-cache/2024-01-01_10-00-00.json'',
       ''singapore-cache/2024-01-01_10-05-00.json'', ''singapore-cache/9999-12-31_23-59-59.json'']\<rparr>))
       = Some (''singapore-cache/9999-12-31_23-59-59.json'',
           \<lparr>year = 9999, month = 12, day = 31, hour = 23, minute = 59, second = 59, microsecond = 0\<rparr>)"
proof -
  let ?env = "example_env\<lparr>listed := [''singapore-cache/2024-01-01_10-00-00.json'',
       ''singapore-cache/2024-01-01_10-05-00.json'', ''singapore-cache/9999-12-31_23-59-59.json'']\<rparr>"
  let ?ts = "\<lparr>year = 9999, month = 12, day = 31, hour = 23, minute = 59, second = 59, microsecond = 0\<rparr>"
  have h1: "client_scan ?env = None" by (simp add: example_env_def)
  have h2: "list_error ?env = None" by (simp add: example_env_def)
  have h3: "''singapore-cache/9999-12-31_23-59-59.json'' \<in> set (listed ?env)" by simp
  have h4: "endswith ''singapore-cache/9999-12-31_23-59-59.json'' ''.json''" by code_simp
  have h5: "strptime ?env (filename_of ''singapore-cache/9999-12-31_23-59-59.json'') = Some ?ts"
    by code_simp
  have h6: "dt_sub (now_scan ?env) ?ts < 0" by code_simp
  have f1: "strptime ?env (filename_of ''singapore-cache/2024-01-01_10-00-00.json'')
      = Some \<lparr>year = 2024, month = 1, day = 1, hour = 10, minute = 0, second = 0, microsecond = 0\<rparr>"
    by code_simp
  have f2: "strptime ?env (filename_of ''singapore-cache/2024-01-01_10-05-00.json'')
      = Some \<lparr>year = 2024, month = 1, day = 1, hour = 10, minute = 5, second = 0, microsecond = 0\<rparr>"
    by code_simp
  have earlier: "\<forall>other \<in> set (listed ?env). \<forall>ts'.
      other \<noteq> ''singapore-cache/9999-12-31_23-59-59.json'' \<and> strptime ?env (filename_of other) = Some ts'
      \<longrightarrow> dt_tuple ts' < dt_tuple ?ts"
    using f1 f2 by (auto simp: dt_tuple_def)
  have "snd (get_latest_cache_file ?env) = Some (''singapore-cache/9999-12-31_23-59-59.json'', ?ts)"
    using future_entry_is_fresh [OF h1 h2 h3 h4 h5 h6] earlier by blast
  then show ?thesis using h1 h6 by simp
qed

text \<open>
  C7. When the scan yields an entry and the API key is usable, the lookup downloads that
  entry and makes neither an upstream call nor an upload; when the download and the decoding
  succeed, the decoded payload is what the lookup returns.
\<close>

theorem fresh_entry_is_served:
  assumes "x_api_key \<noteq> []" and "strip x_api_key \<noteq> []"
    and "snd (get_latest_cache_file env) = Some (blob, ts)"
  shows "Download blob \<in> set (fst (get_singapore_ship_data env x_api_key))
     \<and> (\<forall>key. HttpGet key \<notin> set (fst (get_singapore_ship_data env x_api_key)))
     \<and> (\<forall>name body. Upload name body \<notin> set (fst (get_singapore_ship_data env x_api_key)))
     \<and> (\<forall>content data.
           download_as_text env blob = Inr content \<and> json_loads env content = Inr data
           \<longrightarrow> snd (get_singapore_ship_data env x_api_key) = Inr data)"
proof -
  note body = try_body_hit [OF assms]
  have ev: "set (fst (try_body env x_api_key))
      \<subseteq> {GetClient, ListBlobs SINGAPORE_CACHE_FOLDER, Logged WARNING, Logged INFO, Download blob}"
    using get_latest_cache_file_events [of env] by (auto simp: body)
  have all: "set (fst (get_singapore_ship_data env x_api_key))
      \<subseteq> {GetClient, ListBlobs SINGAPORE_CACHE_FOLDER, Logged WARNING, Logged INFO,
          Download blob, Logged EXCEPTION}"
    using handler_events_eq [of env x_api_key] ev by blast
  have dl: "Download blob \<in> set (fst (get_singapore_ship_data env x_api_key))"
    using handler_events [of env x_api_key] by (auto simp: body)
  have ret: "snd (get_singapore_ship_data env x_api_key) = Inr data"
    if "download_as_text env blob = Inr content" "json_loads env content = Inr data"
    for content data
    using that by (intro handler_success) (simp add: body and_then_def)
  show ?thesis using dl all ret by (auto simp del: set_append)
qed

theorem fresh_entry_is_served_witness:
  "''k'' \<noteq> [] \<and> strip ''k'' \<noteq> []
   \<and> snd (get_latest_cache_file example_env)
       = Some (''singapore-cache/2024-01-01_10-05-00.json'',
           \<lparr>year = 2024, month = 1, day = 1, hour = 10, minute = 5, second = 0, microsecond = 0\<rparr>)
   \<and> Download ''singapore-cache/2024-01-01_10-05-00.json''
       \<in> set (fst (get_singapore_ship_data example_env ''k''))
   \<and> snd (get_singapore_ship_data example_env ''k'') = Inr (JArr [])"
proof -
  have k: "''k'' \<noteq> []" "strip ''k'' \<noteq> []" by code_simp+
  have hit: "snd (get_latest_cache_file example_env)
       = Some (''singapore-cache/2024-01-01_10-05-00.json'',
           \<lparr>year = 2024, month = 1, day = 1, hour = 10, minute = 5, second = 0, microsecond = 0\<rparr>)"
    by code_simp
  have dl: "download_as_text example_env ''singapore-cache/2024-01-01_10-05-00.json'' = Inr ''[]''"
    by (simp add: example_env_def)
  have js: "json_loads example_env ''[]'' = Inr (JArr [])"
    by (simp add: example_env_def)
  show ?thesis
    using k hit dl js fresh_entry_is_served [OF k hit] by blast
qed

text \<open>
  C1. What the code does with a non-success upstream response, for a usable API key and no
  fresh cache entry: the 502 exception raised in the \<open>try\<close> body is caught by the final
  \<open>except Exception\<close> clause and leaves as a 500 whose detail is the text of the 502
  exception; no upload is made.
\<close>

theorem upstream_failure_surfaces_as_500:
  assumes "x_api_key \<noteq> []" and "strip x_api_key \<noteq> []"
    and "snd (get_latest_cache_file env) = None"
    and "http_get env x_api_key = Inr response"
    and "\<not> is_success response"
  shows "snd (get_singapore_ship_data env x_api_key)
           = Inl (HTTPException 500 (str_exn env (HTTPException 502
                (''Failed to fetch data from Singapore API: '' @ str_int (status_code response)))))
     \<and> (\<forall>name body. Upload name body \<notin> set (fst (get_singapore_ship_data env x_api_key)))"
proof -
  have ff: "fetch_fresh env x_api_key
      = ([Logged INFO, HttpGet x_api_key, Logged ERROR],
         Inl (HTTPException 502
           (''Failed to fetch data from Singapore API: '' @ str_int (status_code response))))"
    using assms(4,5) by (simp add: fetch_fresh_def)
  have body: "try_body env x_api_key
      = (fst (get_latest_cache_file env) @ [Logged INFO, HttpGet x_api_key, Logged ERROR],
         Inl (HTTPException 502
           (''Failed to fetch data from Singapore API: '' @ str_int (status_code response))))"
    using try_body_miss [OF assms(1-3)] ff by simp
  have out: "get_singapore_ship_data env x_api_key
      = (fst (get_latest_cache_file env)
           @ [Logged INFO, HttpGet x_api_key, Logged ERROR, Logged EXCEPTION],
         Inl (HTTPException 500 (str_exn env (HTTPException 502
           (''Failed to fetch data from Singapore API: '' @ str_int (status_code response))))))"
    using handler_failure [of env x_api_key] body by simp
  have "Upload name body \<notin> set (fst (get_singapore_ship_data env x_api_key))" for name body
    using get_latest_cache_file_events [of env] by (auto simp: out)
  then show ?thesis using out by simp
qed

theorem upstream_failure_surfaces_as_500_witness:
  "\<not> is_success \<lparr>status_code = 503, resp_text = ''Service Unavailable'',
        json_body = Inl (ValueError ''Expecting value'') :: exn + real json\<rparr>
   \<and> snd (get_singapore_ship_data
        (example_env\<lparr>listed := [],
           http_get := (\<lambda>key. Inr \<lparr>status_code = 503, resp_text = ''Service Unavailable'',
             json_body = Inl (ValueError ''Expecting value'')\<rparr>)\<rparr>) ''k'')
     = Inl (HTTPException 500 ''502: Failed to fetch data from Singapore API: 503'')"
proof -
  let ?resp = "\<lparr>status_code = 503, resp_text = ''Service Unavailable'',
        json_body = Inl (ValueError ''Expecting value'') :: exn + real json\<rparr>"
  let ?env = "example_env\<lparr>listed := [], http_get := (\<lambda>key. Inr ?resp)\<rparr>"
  have k: "''k'' \<noteq> []" "strip ''k'' \<noteq> []" by code_simp+
  have miss: "snd (get_latest_cache_file ?env) = None" by code_simp
  have get: "http_get ?env ''k'' = Inr ?resp" by simp
  have bad: "\<not> is_success ?resp" by (simp add: is_success_def)
  have detail: "str_exn ?env (HTTPException 502
        (''Failed to fetch data from Singapore API: '' @ str_int (status_code ?resp)))
      = ''502: Failed to fetch data from Singapore API: 503''"
    by code_simp
  show ?thesis
    using bad detail upstream_failure_surfaces_as_500 [OF k miss get bad] by simp
qed

text \<open>
  C2. What the code does with an empty or whitespace-only API key: the 400 exception raised
  in the \<open>try\<close> body is caught by the final \<open>except Exception\<close> clause and leaves as a 500
  whose detail is the text of the 400 exception; nothing but the log entry of that clause
  happens, so neither the store nor the network is touched.
\<close>

theorem blank_api_key_surfaces_as_500:
  assumes "\<forall>c \<in> set x_api_key. isspace c"
  shows "get_singapore_ship_data env x_api_key
           = ([Logged EXCEPTION],
              Inl (HTTPException 500 (str_exn env (HTTPException 400 ''API key is required''))))"
proof -
  have "x_api_key = [] \<or> strip x_api_key = []"
    using assms by (simp add: strip_blank)
  then have "try_body env x_api_key = ([], Inl (HTTPException 400 ''API key is required''))"
    by (rule try_body_blank)
  then show ?thesis by (simp add: get_singapore_ship_data_def)
qed

theorem blank_api_key_surfaces_as_500_witness:
  "strip [CHR '' '', CHR 0x09] = []
   \<and> get_singapore_ship_data example_env [CHR '' '', CHR 0x09]
     = ([Logged EXCEPTION], Inl (HTTPException 500 ''400: API key is required''))"
proof -
  have h: "\<forall>c \<in> set [CHR '' '', CHR 0x09]. isspace c" by (simp add: isspace_def)
  have s: "strip [CHR '' '', CHR 0x09] = []" by code_simp
  have detail: "str_exn example_env (HTTPException 400 ''API key is required'')
      = ''400: API key is required''"
    by code_simp
  show ?thesis
    using s detail blank_api_key_surfaces_as_500 [OF h, of example_env] by simp
qed

lemma dt_sub_chain: "dt_sub a c = dt_sub a b + dt_sub b c"
  by (simp add: dt_sub_def timedelta_def algebra_simps)

lemma dt_sub_whole_seconds:
  "dt_sub (a\<lparr>microsecond := 0\<rparr>) (b\<lparr>microsecond := 0\<rparr>)
     = dt_sub a b - (microsecond a - microsecond b)"
  by (simp add: dt_sub_def timedelta_def toordinal_def)

lemma dt_sub_whole_multiple:
  "\<exists>k. dt_sub (a\<lparr>microsecond := 0\<rparr>) (b\<lparr>microsecond := 0\<rparr>) = k * 1000000"
  by (rule exI [of _ "(toordinal a - toordinal b) * 86400
        + ((second a + minute a * 60 + hour a * 3600) - (second b + minute b * 60 + hour b * 3600))"])
     (simp add: dt_sub_def timedelta_def toordinal_def)

lemma dt_sub_truncated:
  "dt_sub (a\<lparr>microsecond := 0\<rparr>) b = dt_sub a b - microsecond a"
  by (simp add: dt_sub_def timedelta_def toordinal_def)

text \<open>Truncating two instants to the whole second keeps their order.\<close>

lemma whole_seconds_mono:
  assumes "0 \<le> dt_sub a b"
    and "0 \<le> microsecond b" and "microsecond a < 1000000"
  shows "0 \<le> dt_sub (a\<lparr>microsecond := 0\<rparr>) (b\<lparr>microsecond := 0\<rparr>)"
proof -
  obtain k where k: "dt_sub (a\<lparr>microsecond := 0\<rparr>) (b\<lparr>microsecond := 0\<rparr>) = k * 1000000"
    using dt_sub_whole_multiple by blast
  have "- 1000000 < k * 1000000"
    using assms k dt_sub_whole_seconds [of a b] by linarith
  then have "0 \<le> k" by linarith
  then show ?thesis using k by simp
qed

text \<open>
  C6 (as amended). After a successful fetch the normalized payload is returned whatever happens
  to the cache write. When the store client can be built inside \<open>save_to_cache\<close>, exactly
  one upload is made, under the cache prefix, named by the clock reading taken at write time in
  the format \<open>YYYY-MM-DD_HH-MM-SS\<close>, with the serialized payload as body; when the client
  cannot be built, no upload is made. A failure of either step is logged as an error. For
  every instant \<open>start\<close> not after the scan's clock reading, and a clock that does not run
  backwards between the scan and the write, the write-time reading is at or after \<open>start\<close>,
  and the instant the uploaded name spells out is the write-time reading cut to the whole
  second: at or after \<open>start\<close> cut to the whole second, and less than a second before
  \<open>start\<close>.
\<close>

theorem fresh_data_is_written_once:
  assumes "x_api_key \<noteq> []" and "strip x_api_key \<noteq> []"
    and "snd (get_latest_cache_file env) = None"
    and "http_get env x_api_key = Inr response"
    and "is_success response"
    and "and_then (json_body response) (\<lambda>api_data.
           and_then (py_iter api_data) (transform_all env)) = Inr transformed_data"
  shows "snd (get_singapore_ship_data env x_api_key) = Inr (JArr transformed_data)
     \<and> filter is_upload (fst (get_singapore_ship_data env x_api_key))
         = (if client_save env = None
            then [Upload (SINGAPORE_CACHE_FOLDER @ strftime (now_save env) @ ''.json'')
                    (json_dumps env (JArr transformed_data))]
            else [])
     \<and> (client_save env \<noteq> None
          \<or> upload_from_string env (SINGAPORE_CACHE_FOLDER @ strftime (now_save env) @ ''.json'')
               (json_dumps env (JArr transformed_data)) \<noteq> None
          \<longrightarrow> Logged ERROR \<in> set (fst (get_singapore_ship_data env x_api_key)))
     \<and> (\<forall>start.
           0 \<le> dt_sub (now_scan env) start \<and> 0 \<le> dt_sub (now_save env) (now_scan env)
           \<and> 0 \<le> microsecond start \<and> 0 \<le> microsecond (now_save env)
           \<and> microsecond (now_save env) < 1000000
           \<longrightarrow> 0 \<le> dt_sub (now_save env) start
             \<and> (\<forall>name body.
                   Upload name body \<in> set (fst (get_singapore_ship_data env x_api_key))
                   \<longrightarrow> (\<exists>written.
                         name = SINGAPORE_CACHE_FOLDER @ strftime written @ ''.json''
                         \<and> written = (now_save env)\<lparr>microsecond := 0\<rparr>
                         \<and> dt_sub written (now_save env) \<le> 0
                         \<and> 0 \<le> dt_sub written (start\<lparr>microsecond := 0\<rparr>)
                         \<and> - 1000000 < dt_sub written start)))"
proof -
  let ?name = "SINGAPORE_CACHE_FOLDER @ strftime (now_save env) @ ''.json''"
  let ?body = "json_dumps env (JArr transformed_data)"
  let ?save = "fst (save_to_cache env (JArr transformed_data))"
  let ?written = "(now_save env)\<lparr>microsecond := 0\<rparr>"
  have ff: "fetch_fresh env x_api_key
      = ([Logged INFO, HttpGet x_api_key] @ ?save @ [Logged INFO], Inr (JArr transformed_data))"
    using assms(4,5,6) by (simp add: fetch_fresh_def)
  have body: "try_body env x_api_key
      = (fst (get_latest_cache_file env) @ [Logged INFO, HttpGet x_api_key] @ ?save @ [Logged INFO],
         Inr (JArr transformed_data))"
    using try_body_miss [OF assms(1-3)] ff by simp
  have out: "get_singapore_ship_data env x_api_key
      = (fst (get_latest_cache_file env) @ [Logged INFO, HttpGet x_api_key] @ ?save @ [Logged INFO],
         Inr (JArr transformed_data))"
    using body by (simp add: get_singapore_ship_data_def)
  have save_up: "filter is_upload ?save
      = (if client_save env = None then [Upload ?name ?body] else [])"
    by (auto simp: save_to_cache_def Let_def split: option.splits)
  have save_err: "Logged ERROR \<in> set ?save"
    if "client_save env \<noteq> None \<or> upload_from_string env ?name ?body \<noteq> None"
    using that by (auto simp: save_to_cache_def Let_def split: option.splits)
  have ups: "filter is_upload (fst (get_singapore_ship_data env x_api_key))
      = (if client_save env = None then [Upload ?name ?body] else [])"
    unfolding out by (simp add: no_upload_in_scan save_up del: append_assoc)
  have named: "name = SINGAPORE_CACHE_FOLDER @ strftime ?written @ ''.json''"
    if "Upload name body \<in> set (fst (get_singapore_ship_data env x_api_key))" for name body
  proof -
    have "Upload name body \<in> set (filter is_upload (fst (get_singapore_ship_data env x_api_key)))"
      using that by simp
    then have "name = ?name" unfolding ups by (simp split: if_splits)
    then show ?thesis by (simp add: strftime_def)
  qed
  have clock: "0 \<le> dt_sub (now_save env) start
      \<and> dt_sub ?written (now_save env) \<le> 0
      \<and> 0 \<le> dt_sub ?written (start\<lparr>microsecond := 0\<rparr>)
      \<and> - 1000000 < dt_sub ?written start"
    if "0 \<le> dt_sub (now_scan env) start" "0 \<le> dt_sub (now_save env) (now_scan env)"
       "0 \<le> microsecond start" "0 \<le> microsecond (now_save env)"
       "microsecond (now_save env) < 1000000" for start
  proof -
    have after: "0 \<le> dt_sub (now_save env) start"
      using that(1,2) dt_sub_chain [of "now_save env" start "now_scan env"] by simp
    have behind: "dt_sub ?written (now_save env) \<le> 0"
      using that(4) dt_sub_truncated [of "now_save env" "now_save env"]
      by (simp add: dt_sub_def timedelta_def)
    have whole: "0 \<le> dt_sub ?written (start\<lparr>microsecond := 0\<rparr>)"
      using whole_seconds_mono [OF after that(3) that(5)] .
    have near: "- 1000000 < dt_sub ?written start"
      using after that(5) dt_sub_truncated [of "now_save env" start] by simp
    show ?thesis using after behind whole near by simp
  qed
  have returned: "snd (get_singapore_ship_data env x_api_key) = Inr (JArr transformed_data)"
    by (simp add: out)
  have logged: "client_save env \<noteq> None \<or> upload_from_string env ?name ?body \<noteq> None
      \<longrightarrow> Logged ERROR \<in> set (fst (get_singapore_ship_data env x_api_key))"
    using save_err by (simp add: out)
  have timed: "\<forall>start.
           0 \<le> dt_sub (now_scan env) start \<and> 0 \<le> dt_sub (now_save env) (now_scan env)
           \<and> 0 \<le> microsecond start \<and> 0 \<le> microsecond (now_save env)
           \<and> microsecond (now_save env) < 1000000
           \<longrightarrow> 0 \<le> dt_sub (now_save env) start
             \<and> (\<forall>name body.
                   Upload name body \<in> set (fst (get_singapore_ship_data env x_api_key))
                   \<longrightarrow> (\<exists>written.
                         name = SINGAPORE_CACHE_FOLDER @ strftime written @ ''.json''
                         \<and> written = (now_save env)\<lparr>microsecond := 0\<rparr>
                         \<and> dt_sub written (now_save env) \<le> 0
                         \<and> 0 \<le> dt_sub written (start\<lparr>microsecond := 0\<rparr>)
                         \<and> - 1000000 < dt_sub written start))"
    using named clock by blast
  show ?thesis by (intro conjI returned ups logged timed)
qed

theorem fresh_data_is_written_once_witness:
  "0 \<le> dt_sub (now_scan example_env)
       \<lparr>year = 2024, month = 1, day = 1, hour = 10, minute = 5, second = 59, microsecond = 500000\<rparr>
   \<and> 0 \<le> dt_sub (now_save example_env) (now_scan example_env)
   \<and> snd (get_singapore_ship_data
          (example_env\<lparr>listed := [],
             upload_from_string := (\<lambda>name body. Some (OtherError ''503 Service Unavailable''))\<rparr>)
          ''k'') = Inr (JArr [])
   \<and> filter is_upload (fst (get_singapore_ship_data
          (example_env\<lparr>listed := [],
             upload_from_string := (\<lambda>name body. Some (OtherError ''503 Service Unavailable''))\<rparr>)
          ''k''))
       = [Upload ''singapore-cache/2024-01-01_10-06-01.json'' ''[]'']
   \<and> Logged ERROR \<in> set (fst (get_singapore_ship_data
          (example_env\<lparr>listed := [],
             upload_from_string := (\<lambda>name body. Some (OtherError ''503 Service Unavailable''))\<rparr>)
          ''k''))
   \<and> 0 \<le> dt_sub (now_save example_env)
       \<lparr>year = 2024, month = 1, day = 1, hour = 10, minute = 5, second = 59, microsecond = 500000\<rparr>"
proof -
  let ?env = "example_env\<lparr>listed := [],
     upload_from_string := (\<lambda>name body. Some (OtherError ''503 Service Unavailable''))\<rparr>"
  let ?resp = "\<lparr>status_code = 200, resp_text = ''[]'', json_body = Inr (JArr []) :: exn + real json\<rparr>"
  let ?start = "\<lparr>year = 2024, month = 1, day = 1, hour = 10, minute = 5, second = 59,
     microsecond = 500000\<rparr>"
  have k: "''k'' \<noteq> []" "strip ''k'' \<noteq> []" by code_simp+
  have miss: "snd (get_latest_cache_file ?env) = None" by code_simp
  have get: "http_get ?env ''k'' = Inr ?resp" by (simp add: example_env_def)
  have good: "is_success ?resp" by (simp add: is_success_def)
  have data: "and_then (json_body ?resp) (\<lambda>api_data.
           and_then (py_iter api_data) (transform_all ?env)) = Inr []"
    by (simp add: and_then_def)
  have name: "SINGAPORE_CACHE_FOLDER @ strftime (now_save ?env) @ ''.json''
      = ''singapore-cache/2024-01-01_10-06-01.json''"
    by code_simp
  have body: "json_dumps ?env (JArr []) = ''[]''" by (simp add: example_env_def)
  have client: "client_save ?env = None" by (simp add: example_env_def)
  have up: "upload_from_string ?env ''singapore-cache/2024-01-01_10-06-01.json'' ''[]'' \<noteq> None"
    by simp
  have c1: "0 \<le> dt_sub (now_scan ?env) ?start" by code_simp
  have c2: "0 \<le> dt_sub (now_save ?env) (now_scan ?env)" by code_simp
  have c3: "0 \<le> microsecond ?start" "0 \<le> microsecond (now_save ?env)"
    "microsecond (now_save ?env) < 1000000"
    by (simp_all add: example_env_def)
  note inst = fresh_data_is_written_once [OF k miss get good data]
  have first: "snd (get_singapore_ship_data ?env ''k'') = Inr (JArr [])"
    using inst by (rule conjunct1)
  have ups: "filter is_upload (fst (get_singapore_ship_data ?env ''k''))
       = [Upload ''singapore-cache/2024-01-01_10-06-01.json'' ''[]'']"
    using inst [THEN conjunct2, THEN conjunct1] name body client by simp
  have err: "Logged ERROR \<in> set (fst (get_singapore_ship_data ?env ''k''))"
    using inst [THEN conjunct2, THEN conjunct2, THEN conjunct1] name body up by simp
  have after: "0 \<le> dt_sub (now_save ?env) ?start"
    using inst [THEN conjunct2, THEN conjunct2, THEN conjunct2, THEN spec, of ?start] c1 c2 c3
    by blast
  show ?thesis using first ups err after c1 c2 by simp
qed

text \<open>
  The claim as stated fails: when the store client cannot be built inside \<open>save_to_cache\<close>,
  the fetch succeeds and the payload is returned, but no upload is made at all.
\<close>

theorem cache_write_counterexample:
  "client_save (example_env\<lparr>listed := [], client_save := Some (OtherError ''no credentials'')\<rparr>)
     = Some (OtherError ''no credentials'')
   \<and> get_singapore_ship_data
        (example_env\<lparr>listed := [], client_save := Some (OtherError ''no credentials'')\<rparr>) ''k''
     = ([GetClient, ListBlobs ''singapore-cache/'', Logged INFO, HttpGet ''k'',
         GetClient, Logged ERROR, Logged INFO], Inr (JArr []))
   \<and> filter is_upload (fst (get_singapore_ship_data
        (example_env\<lparr>listed := [], client_save := Some (OtherError ''no credentials'')\<rparr>) ''k''))
     = []"
  by code_simp

text \<open>
  C3 (as amended). A failure of the cache scan (building the client, listing) is absorbed:
  the scan returns no entry and the lookup continues with the upstream fetch. A failure while
  downloading or decoding an entry the scan has found is not absorbed: it reaches the caller
  through the \<open>except\<close> clauses and no upstream call is made. Every failure that reaches the
  caller is a blank API key, a failure of the upstream fetch after a cache miss, or a failure
  to download or decode a found entry.
\<close>

theorem cache_read_failures:
  shows "(client_scan env \<noteq> None \<or> list_error env \<noteq> None
           \<longrightarrow> snd (get_latest_cache_file env) = None)
     \<and> (x_api_key \<noteq> [] \<and> strip x_api_key \<noteq> [] \<and> snd (get_latest_cache_file env) = None
           \<longrightarrow> snd (try_body env x_api_key) = snd (fetch_fresh env x_api_key))
     \<and> (x_api_key \<noteq> [] \<and> strip x_api_key \<noteq> []
         \<and> snd (get_latest_cache_file env) = Some (blob, ts)
         \<and> and_then (download_as_text env blob) (json_loads env) = Inl e
           \<longrightarrow> snd (get_singapore_ship_data env x_api_key) = Inl (reraise env e)
               \<and> (\<forall>key. HttpGet key \<notin> set (fst (get_singapore_ship_data env x_api_key))))
     \<and> (snd (get_singapore_ship_data env x_api_key) = Inl failure
           \<longrightarrow> (x_api_key = [] \<or> strip x_api_key = [])
             \<or> (\<exists>e. snd (get_latest_cache_file env) = None
                   \<and> snd (fetch_fresh env x_api_key) = Inl e \<and> failure = reraise env e)
             \<or> (\<exists>blob ts e. snd (get_latest_cache_file env) = Some (blob, ts)
                   \<and> and_then (download_as_text env blob) (json_loads env) = Inl e
                   \<and> failure = reraise env e))"
proof -
  have a: "snd (get_latest_cache_file env) = None"
    if "client_scan env \<noteq> None \<or> list_error env \<noteq> None"
    using that by (rule get_latest_cache_file_failed)
  have b: "snd (try_body env x_api_key) = snd (fetch_fresh env x_api_key)"
    if "x_api_key \<noteq> []" "strip x_api_key \<noteq> []" "snd (get_latest_cache_file env) = None"
    using try_body_miss [OF that] by simp
  have c: "snd (get_singapore_ship_data env x_api_key) = Inl (reraise env e)
           \<and> (\<forall>key. HttpGet key \<notin> set (fst (get_singapore_ship_data env x_api_key)))"
    if h: "x_api_key \<noteq> []" "strip x_api_key \<noteq> []"
       "snd (get_latest_cache_file env) = Some (blob, ts)"
       and f: "and_then (download_as_text env blob) (json_loads env) = Inl e"
  proof -
    note body = try_body_hit [OF h]
    have "snd (try_body env x_api_key) = Inl e" using f by (simp add: body)
    from handler_failure [OF this]
    have out: "get_singapore_ship_data env x_api_key
        = (fst (get_latest_cache_file env) @ [Logged INFO, Download blob, Logged EXCEPTION],
           Inl (reraise env e))"
      by (simp add: body)
    show ?thesis using get_latest_cache_file_events [of env] by (auto simp: out)
  qed
  have d: "(x_api_key = [] \<or> strip x_api_key = [])
             \<or> (\<exists>e. snd (get_latest_cache_file env) = None
                   \<and> snd (fetch_fresh env x_api_key) = Inl e \<and> failure = reraise env e)
             \<or> (\<exists>blob ts e. snd (get_latest_cache_file env) = Some (blob, ts)
                   \<and> and_then (download_as_text env blob) (json_loads env) = Inl e
                   \<and> failure = reraise env e)"
    if fail: "snd (get_singapore_ship_data env x_api_key) = Inl failure"
  proof (cases "x_api_key = [] \<or> strip x_api_key = []")
    case True
    then show ?thesis by simp
  next
    case False
    then have nb: "x_api_key \<noteq> []" "strip x_api_key \<noteq> []" by simp_all
    obtain e where e: "snd (try_body env x_api_key) = Inl e"
      using fail handler_success [of env x_api_key]
      by (cases "snd (try_body env x_api_key)") auto
    have fr: "failure = reraise env e"
      using handler_failure [OF e] fail by simp
    show ?thesis
    proof (cases "snd (get_latest_cache_file env)")
      case None
      then show ?thesis using try_body_miss [OF nb None] e fr by simp
    next
      case (Some hit)
      obtain blob ts where "hit = (blob, ts)" by (cases hit)
      then show ?thesis using try_body_hit [OF nb, of env blob ts] Some e fr by simp
    qed
  qed
  show ?thesis using a b c d by blast
qed

theorem cache_read_failures_witness:
  "snd (get_latest_cache_file
     (example_env\<lparr>download_as_text := (\<lambda>blob. Inl (OtherError ''503 Service Unavailable''))\<rparr>))
     = Some (''singapore-cache/2024-01-01_10-05-00.json'',
         \<lparr>year = 2024, month = 1, day = 1, hour = 10, minute = 5, second = 0, microsecond = 0\<rparr>)
   \<and> snd (get_singapore_ship_data
     (example_env\<lparr>download_as_text := (\<lambda>blob. Inl (OtherError ''503 Service Unavailable''))\<rparr>)
     ''k'') = Inl (HTTPException 500 ''503 Service Unavailable'')
   \<and> HttpGet ''k'' \<notin> set (fst (get_singapore_ship_data
     (example_env\<lparr>download_as_text := (\<lambda>blob. Inl (OtherError ''503 Service Unavailable''))\<rparr>)
     ''k''))"
proof -
  let ?env = "example_env\<lparr>download_as_text :=
      (\<lambda>blob. Inl (OtherError ''503 Service Unavailable''))\<rparr>"
  let ?blob = "''singapore-cache/2024-01-01_10-05-00.json''"
  let ?ts = "\<lparr>year = 2024, month = 1, day = 1, hour = 10, minute = 5, second = 0, microsecond = 0\<rparr>"
  have k: "''k'' \<noteq> []" "strip ''k'' \<noteq> []" by code_simp+
  have hit: "snd (get_latest_cache_file ?env) = Some (?blob, ?ts)" by code_simp
  have dl: "and_then (download_as_text ?env ?blob) (json_loads ?env)
      = Inl (OtherError ''503 Service Unavailable'')"
    by (simp add: and_then_def)
  have rr: "reraise ?env (OtherError ''503 Service Unavailable'')
      = HTTPException 500 ''503 Service Unavailable''"
    by (simp add: example_env_def)
  note third = cache_read_failures [of ?env "''k''" ?blob ?ts
      "OtherError ''503 Service Unavailable''", THEN conjunct2, THEN conjunct2, THEN conjunct1]
  have "snd (get_singapore_ship_data ?env ''k'')
          = Inl (reraise ?env (OtherError ''503 Service Unavailable''))
        \<and> (\<forall>key. HttpGet key \<notin> set (fst (get_singapore_ship_data ?env ''k'')))"
    using third k hit dl by blast
  then show ?thesis using hit rr by simp
qed

text \<open>
  The claim as stated fails: with a fresh entry found and its download raising, the caller gets
  a 500 and the upstream API is not called, although the same request with no cache at all
  succeeds.
\<close>

theorem cache_download_counterexample:
  "get_singapore_ship_data
     (example_env\<lparr>download_as_text := (\<lambda>blob. Inl (OtherError ''503 Service Unavailable''))\<rparr>)
     ''k''
   = ([GetClient, ListBlobs ''singapore-cache/'', Logged INFO,
       Download ''singapore-cache/2024-01-01_10-05-00.json'', Logged EXCEPTION],
      Inl (HTTPException 500 ''503 Service Unavailable''))
   \<and> snd (get_singapore_ship_data
     (example_env\<lparr>listed := [],
        download_as_text := (\<lambda>blob. Inl (OtherError ''503 Service Unavailable''))\<rparr>) ''k'')
   = Inr (JArr [])"
  by code_simp

section \<open>Normalization\<close>

lemma py_float_field:
  assumes zero: "float_of_int env 0 = Inr zero"
    and conv: "\<forall>v. map_of ship k = Some v \<longrightarrow> (\<exists>x. py_float env v = Inr x)"
  shows "\<exists>x. py_float env (py_get ship k (JInt 0)) = Inr x
           \<and> (map_of ship k = None \<longrightarrow> x = zero)
           \<and> (\<forall>y. map_of ship k = Some (JFloat y) \<longrightarrow> x = y)"
proof (cases "map_of ship k")
  case None
  then show ?thesis using zero by (simp add: py_get_def)
next
  case (Some v)
  then obtain x where "py_float env v = Inr x" using conv by blast
  then show ?thesis using Some by (auto simp: py_get_def)
qed

lemma py_float_fallback:
  assumes zero: "float_of_int env 0 = Inr zero"
    and conv: "\<forall>v. map_of ship k = Some v \<longrightarrow> (\<exists>x. py_float env v = Inr x)"
    and conv': "\<forall>v. map_of ship k' = Some v \<longrightarrow> (\<exists>x. py_float env v = Inr x)"
  shows "\<exists>x. py_float env (py_get ship k (py_get ship k' (JInt 0))) = Inr x
           \<and> (map_of ship k = None \<longrightarrow> py_float env (py_get ship k' (JInt 0)) = Inr x)"
proof (cases "map_of ship k")
  case None
  then show ?thesis using py_float_field [OF zero conv'] by (auto simp: py_get_def)
next
  case (Some v)
  then obtain x where "py_float env v = Inr x" using conv by blast
  then show ?thesis using Some by (auto simp: py_get_def)
qed

text \<open>
  C5. For an upstream vessel object whose present numeric fields \<open>float\<close> accepts, the
  normalization succeeds, and in its result every missing numeric field is \<open>float(0)\<close>, every
  missing string field is the empty string, and a missing \<open>latitudeDegrees\<close>
  (\<open>longitudeDegrees\<close>) has the value of \<open>latitude\<close> (\<open>longitude\<close>): the upstream float itself
  when \<open>latitude\<close> is present as a float, and \<open>float(0)\<close> when both are missing.
\<close>

theorem normalization_defaults:
  assumes zero: "float_of_int env 0 = Inr zero"
    and conv: "\<forall>k \<in> set numeric_fields. \<forall>v.
                 map_of ship k = Some v \<longrightarrow> (\<exists>x. py_float env v = Inr x)"
  shows "\<exists>out particulars.
      transform_ship env (JObj ship) = Inr out
    \<and> member_of out ''vesselParticulars'' = Some particulars
    \<and> (\<forall>k \<in> {''vesselLength'', ''vesselBreadth'', ''vesselDepth'', ''grossTonnage'',
               ''netTonnage'', ''deadweight''}.
          map_of ship k = None \<longrightarrow> member_of particulars k = Some (JFloat zero))
    \<and> (\<forall>k \<in> {''latitude'', ''longitude'', ''speed'', ''course'', ''heading''}.
          map_of ship k = None \<longrightarrow> member_of out k = Some (JFloat zero))
    \<and> (\<forall>k \<in> {''vesselName'', ''callSign'', ''imoNumber'', ''flag'', ''vesselType'',
               ''mmsiNumber'', ''yearBuilt''}.
          map_of ship k = None \<longrightarrow> member_of particulars k = Some (JStr []))
    \<and> (map_of ship ''timeStamp'' = None \<longrightarrow> member_of out ''timeStamp'' = Some (JStr []))
    \<and> (map_of ship ''latitudeDegrees'' = None
          \<longrightarrow> member_of out ''latitudeDegrees'' = member_of out ''latitude'')
    \<and> (map_of ship ''longitudeDegrees'' = None
          \<longrightarrow> member_of out ''longitudeDegrees'' = member_of out ''longitude'')
    \<and> (\<forall>x. map_of ship ''latitudeDegrees'' = None \<and> map_of ship ''latitude'' = Some (JFloat x)
          \<longrightarrow> member_of out ''latitudeDegrees'' = Some (JFloat x))
    \<and> (\<forall>x. map_of ship ''longitudeDegrees'' = None \<and> map_of ship ''longitude'' = Some (JFloat x)
          \<longrightarrow> member_of out ''longitudeDegrees'' = Some (JFloat x))
    \<and> (map_of ship ''latitudeDegrees'' = None \<and> map_of ship ''latitude'' = None
          \<longrightarrow> member_of out ''latitudeDegrees'' = Some (JFloat zero)
              \<and> member_of out ''latitude'' = Some (JFloat zero))
    \<and> (map_of ship ''longitudeDegrees'' = None \<and> map_of ship ''longitude'' = None
          \<longrightarrow> member_of out ''longitudeDegrees'' = Some (JFloat zero)
              \<and> member_of out ''longitude'' = Some (JFloat zero))"
proof -
  obtain vesselLength where vesselLength:
    "py_float env (py_get ship ''vesselLength'' (JInt 0)) = Inr vesselLength"
    "map_of ship ''vesselLength'' = None \<longrightarrow> vesselLength = zero"
    "\<forall>y. map_of ship ''vesselLength'' = Some (JFloat y) \<longrightarrow> vesselLength = y"
    using py_float_field [OF zero, of ship "''vesselLength''"] conv by (auto simp: numeric_fields_def)
  obtain vesselBreadth where vesselBreadth:
    "py_float env (py_get ship ''vesselBreadth'' (JInt 0)) = Inr vesselBreadth"
    "map_of ship ''vesselBreadth'' = None \<longrightarrow> vesselBreadth = zero"
    "\<forall>y. map_of ship ''vesselBreadth'' = Some (JFloat y) \<longrightarrow> vesselBreadth = y"
    using py_float_field [OF zero, of ship "''vesselBreadth''"] conv by (auto simp: numeric_fields_def)
  obtain vesselDepth where vesselDepth:
    "py_float env (py_get ship ''vesselDepth'' (JInt 0)) = Inr vesselDepth"
    "map_of ship ''vesselDepth'' = None \<longrightarrow> vesselDepth = zero"
    "\<forall>y. map_of ship ''vesselDepth'' = Some (JFloat y) \<longrightarrow> vesselDepth = y"
    using py_float_field [OF zero, of ship "''vesselDepth''"] conv by (auto simp: numeric_fields_def)
  obtain grossTonnage where grossTonnage:
    "py_float env (py_get ship ''grossTonnage'' (JInt 0)) = Inr grossTonnage"
    "map_of ship ''grossTonnage'' = None \<longrightarrow> grossTonnage = zero"
    "\<forall>y. map_of ship ''grossTonnage'' = Some (JFloat y) \<longrightarrow> grossTonnage = y"
    using py_float_field [OF zero, of ship "''grossTonnage''"] conv by (auto simp: numeric_fields_def)
  obtain netTonnage where netTonnage:
    "py_float env (py_get ship ''netTonnage'' (JInt 0)) = Inr netTonnage"
    "map_of ship ''netTonnage'' = None \<longrightarrow> netTonnage = zero"
    "\<forall>y. map_of ship ''netTonnage'' = Some (JFloat y) \<longrightarrow> netTonnage = y"
    using py_float_field [OF zero, of ship "''netTonnage''"] conv by (auto simp: numeric_fields_def)
  obtain deadweight where deadweight:
    "py_float env (py_get ship ''deadweight'' (JInt 0)) = Inr deadweight"
    "map_of ship ''deadweight'' = None \<longrightarrow> deadweight = zero"
    "\<forall>y. map_of ship ''deadweight'' = Some (JFloat y) \<longrightarrow> deadweight = y"
    using py_float_field [OF zero, of ship "''deadweight''"] conv by (auto simp: numeric_fields_def)
  obtain latitude where latitude:
    "py_float env (py_get ship ''latitude'' (JInt 0)) = Inr latitude"
    "map_of ship ''latitude'' = None \<longrightarrow> latitude = zero"
    "\<forall>y. map_of ship ''latitude'' = Some (JFloat y) \<longrightarrow> latitude = y"
    using py_float_field [OF zero, of ship "''latitude''"] conv by (auto simp: numeric_fields_def)
  obtain longitude where longitude:
    "py_float env (py_get ship ''longitude'' (JInt 0)) = Inr longitude"
    "map_of ship ''longitude'' = None \<longrightarrow> longitude = zero"
    "\<forall>y. map_of ship ''longitude'' = Some (JFloat y) \<longrightarrow> longitude = y"
    using py_float_field [OF zero, of ship "''longitude''"] conv by (auto simp: numeric_fields_def)
  obtain speed where speed:
    "py_float env (py_get ship ''speed'' (JInt 0)) = Inr speed"
    "map_of ship ''speed'' = None \<longrightarrow> speed = zero"
    "\<forall>y. map_of ship ''speed'' = Some (JFloat y) \<longrightarrow> speed = y"
    using py_float_field [OF zero, of ship "''speed''"] conv by (auto simp: numeric_fields_def)
  obtain course where course:
    "py_float env (py_get ship ''course'' (JInt 0)) = Inr course"
    "map_of ship ''course'' = None \<longrightarrow> course = zero"
    "\<forall>y. map_of ship ''course'' = Some (JFloat y) \<longrightarrow> course = y"
    using py_float_field [OF zero, of ship "''course''"] conv by (auto simp: numeric_fields_def)
  obtain heading where heading:
    "py_float env (py_get ship ''heading'' (JInt 0)) = Inr heading"
    "map_of ship ''heading'' = None \<longrightarrow> heading = zero"
    "\<forall>y. map_of ship ''heading'' = Some (JFloat y) \<longrightarrow> heading = y"
    using py_float_field [OF zero, of ship "''heading''"] conv by (auto simp: numeric_fields_def)
  obtain latitudeDegrees where latitudeDegrees:
    "py_float env (py_get ship ''latitudeDegrees'' (py_get ship ''latitude'' (JInt 0))) = Inr latitudeDegrees"
    "map_of ship ''latitudeDegrees'' = None \<longrightarrow> latitudeDegrees = latitude"
    using py_float_fallback [OF zero, of ship "''latitudeDegrees''" "''latitude''"] conv latitude(1)
    by (auto simp: numeric_fields_def)
  obtain longitudeDegrees where longitudeDegrees:
    "py_float env (py_get ship ''longitudeDegrees'' (py_get ship ''longitude'' (JInt 0))) = Inr longitudeDegrees"
    "map_of ship ''longitudeDegrees'' = None \<longrightarrow> longitudeDegrees = longitude"
    using py_float_fallback [OF zero, of ship "''longitudeDegrees''" "''longitude''"] conv longitude(1)
    by (auto simp: numeric_fields_def)
  let ?particulars = "JObj
          [(''vesselName'', py_get ship ''vesselName'' (JStr [])),
           (''callSign'', py_get ship ''callSign'' (JStr [])),
           (''imoNumber'', py_get ship ''imoNumber'' (JStr [])),
           (''flag'', py_get ship ''flag'' (JStr [])),
           (''vesselLength'', JFloat vesselLength),
           (''vesselBreadth'', JFloat vesselBreadth),
           (''vesselDepth'', JFloat vesselDepth),
           (''vesselType'', py_get ship ''vesselType'' (JStr [])),
           (''grossTonnage'', JFloat grossTonnage),
           (''netTonnage'', JFloat netTonnage),
           (''deadweight'', JFloat deadweight),
           (''mmsiNumber'', py_get ship ''mmsiNumber'' (JStr [])),
           (''yearBuilt'', py_get ship ''yearBuilt'' (JStr []))]"
  let ?out = "JObj
       [(''vesselParticulars'', ?particulars),
        (''latitude'', JFloat latitude),
        (''longitude'', JFloat longitude),
        (''latitudeDegrees'', JFloat latitudeDegrees),
        (''longitudeDegrees'', JFloat longitudeDegrees),
        (''speed'', JFloat speed),
        (''course'', JFloat course),
        (''heading'', JFloat heading),
        (''timeStamp'', py_get ship ''timeStamp'' (JStr []))]"
  have out: "transform_ship env (JObj ship) = Inr ?out"
    by (simp add: and_then_def vesselLength(1) vesselBreadth(1) vesselDepth(1) grossTonnage(1)
        netTonnage(1) deadweight(1) latitude(1) longitude(1) latitudeDegrees(1)
        longitudeDegrees(1) speed(1) course(1) heading(1))
  have p: "member_of ?out ''vesselParticulars'' = Some ?particulars" by simp
  have n1: "\<forall>k \<in> {''vesselLength'', ''vesselBreadth'', ''vesselDepth'', ''grossTonnage'',
               ''netTonnage'', ''deadweight''}.
          map_of ship k = None \<longrightarrow> member_of ?particulars k = Some (JFloat zero)"
    using vesselLength(2) vesselBreadth(2) vesselDepth(2) grossTonnage(2) netTonnage(2)
      deadweight(2) by simp
  have n2: "\<forall>k \<in> {''latitude'', ''longitude'', ''speed'', ''course'', ''heading''}.
          map_of ship k = None \<longrightarrow> member_of ?out k = Some (JFloat zero)"
    using latitude(2) longitude(2) speed(2) course(2) heading(2) by simp
  have s1: "\<forall>k \<in> {''vesselName'', ''callSign'', ''imoNumber'', ''flag'', ''vesselType'',
               ''mmsiNumber'', ''yearBuilt''}.
          map_of ship k = None \<longrightarrow> member_of ?particulars k = Some (JStr [])"
    by (simp add: py_get_def)
  have s2: "map_of ship ''timeStamp'' = None \<longrightarrow> member_of ?out ''timeStamp'' = Some (JStr [])"
    by (simp add: py_get_def)
  have d1: "map_of ship ''latitudeDegrees'' = None
          \<longrightarrow> member_of ?out ''latitudeDegrees'' = member_of ?out ''latitude''"
    using latitudeDegrees(2) by simp
  have d2: "map_of ship ''longitudeDegrees'' = None
          \<longrightarrow> member_of ?out ''longitudeDegrees'' = member_of ?out ''longitude''"
    using longitudeDegrees(2) by simp
  have e1: "\<forall>x. map_of ship ''latitudeDegrees'' = None \<and> map_of ship ''latitude'' = Some (JFloat x)
          \<longrightarrow> member_of ?out ''latitudeDegrees'' = Some (JFloat x)"
    using latitudeDegrees(2) latitude(3) by simp
  have e2: "\<forall>x. map_of ship ''longitudeDegrees'' = None \<and> map_of ship ''longitude'' = Some (JFloat x)
          \<longrightarrow> member_of ?out ''longitudeDegrees'' = Some (JFloat x)"
    using longitudeDegrees(2) longitude(3) by simp
  have z1: "map_of ship ''latitudeDegrees'' = None \<and> map_of ship ''latitude'' = None
          \<longrightarrow> member_of ?out ''latitudeDegrees'' = Some (JFloat zero)
              \<and> member_of ?out ''latitude'' = Some (JFloat zero)"
    using latitudeDegrees(2) latitude(2) by simp
  have z2: "map_of ship ''longitudeDegrees'' = None \<and> map_of ship ''longitude'' = None
          \<longrightarrow> member_of ?out ''longitudeDegrees'' = Some (JFloat zero)
              \<and> member_of ?out ''longitude'' = Some (JFloat zero)"
    using longitudeDegrees(2) longitude(2) by simp
  show ?thesis
    by (rule exI [of _ ?out], rule exI [of _ ?particulars])
       (intro conjI out p n1 n2 s1 s2 d1 d2 e1 e2 z1 z2)
qed

theorem normalization_defaults_witness:
  "float_of_int example_env 0 = Inr 0
   \<and> (\<exists>out. transform_ship example_env (JObj [(''latitude'', JFloat 1.5)]) = Inr out
         \<and> member_of out ''latitude'' = Some (JFloat 1.5)
         \<and> member_of out ''latitudeDegrees'' = Some (JFloat 1.5)
         \<and> member_of out ''longitude'' = Some (JFloat 0)
         \<and> member_of out ''longitudeDegrees'' = Some (JFloat 0)
         \<and> member_of out ''speed'' = Some (JFloat 0)
         \<and> member_of out ''timeStamp'' = Some (JStr []))"
proof -
  let ?ship = "[(''latitude'', JFloat (1.5 :: real))]"
  have zero: "float_of_int example_env 0 = Inr 0" by (simp add: example_env_def)
  have conv: "\<forall>k \<in> set numeric_fields. \<forall>v.
      map_of ?ship k = Some v \<longrightarrow> (\<exists>x. py_float example_env v = Inr x)"
    by (simp add: numeric_fields_def) (rule exI [of _ "3 / 2"], simp)
  have lat: "map_of ?ship ''latitude'' = Some (JFloat 1.5)" by simp
  have missing: "map_of ?ship ''latitudeDegrees'' = None" "map_of ?ship ''longitude'' = None"
    "map_of ?ship ''longitudeDegrees'' = None" "map_of ?ship ''speed'' = None"
    "map_of ?ship ''timeStamp'' = None"
    by simp_all
  from normalization_defaults [OF zero conv]
  obtain out particulars where out:
    "transform_ship example_env (JObj ?ship) = Inr out"
    "\<forall>k \<in> {''latitude'', ''longitude'', ''speed'', ''course'', ''heading''}.
          map_of ?ship k = None \<longrightarrow> member_of out k = Some (JFloat 0)"
    "map_of ?ship ''timeStamp'' = None \<longrightarrow> member_of out ''timeStamp'' = Some (JStr [])"
    "\<forall>x. map_of ?ship ''latitudeDegrees'' = None \<and> map_of ?ship ''latitude'' = Some (JFloat x)
          \<longrightarrow> member_of out ''latitudeDegrees'' = Some (JFloat x)"
    "map_of ?ship ''longitudeDegrees'' = None \<and> map_of ?ship ''longitude'' = None
          \<longrightarrow> member_of out ''longitudeDegrees'' = Some (JFloat 0)
              \<and> member_of out ''longitude'' = Some (JFloat 0)"
    by (elim exE conjE) (rule that, assumption+)
  have l: "member_of out ''latitude'' = Some (JFloat 1.5)"
    using out(1) by (auto simp: and_then_def example_env_def py_get_def)
  have "member_of out ''latitudeDegrees'' = Some (JFloat 1.5)"
    using out(4) lat missing(1) by blast
  moreover have "member_of out ''longitude'' = Some (JFloat 0)"
    "member_of out ''longitudeDegrees'' = Some (JFloat 0)"
    using out(5) missing by blast+
  moreover have "member_of out ''speed'' = Some (JFloat 0)"
    using out(2) missing(4) by blast
  moreover have "member_of out ''timeStamp'' = Some (JStr [])"
    using out(3) missing(5) by blast
  ultimately show ?thesis using zero out(1) l by blast
qed

end
